theory Spec2Isabelle
  imports Main
begin

section \<open>Python values and exceptions\<close>

text \<open>
  The configuration is whatever \<^verbatim>\<open>json.load\<close> returns, with the entry
  \<^verbatim>\<open>downloads_path\<close> replaced by a \<^verbatim>\<open>pathlib.Path\<close>. Values are therefore the JSON
  values plus paths. JSON numbers are integers here (floats behave like them in every
  branch of the program: not subscriptable, not iterable, true unless zero).
  A dictionary is an association list in insertion order, as Python iterates it.
\<close>

type_synonym path = "string list"

datatype pyval =
    PNone
  | PBool bool
  | PInt int
  | PStr string
  | PPath path
  | PList "pyval list"
  | PDict "(string \<times> pyval) list"

datatype error =
    KeyError
  | TypeError
  | AttributeError
  | JSONDecodeError
  | FileNotFoundError
  | FileExistsError
  | NotADirectoryError
  | IsADirectoryError
  | PermissionError
  | ShutilError

text \<open>\<^verbatim>\<open>d[k] = v\<close> on an association list: in place when the key is there, appended otherwise.\<close>

fun upd :: "'k \<Rightarrow> 'v \<Rightarrow> ('k \<times> 'v) list \<Rightarrow> ('k \<times> 'v) list" where
  "upd k v [] = [(k, v)]"
| "upd k v ((k', v') # d) = (if k' = k then (k, v) # d else (k', v') # upd k v d)"

text \<open>Truth value of an object, as \<^verbatim>\<open>not x\<close> tests it.\<close>

fun truthy :: "pyval \<Rightarrow> bool" where
  "truthy PNone = False"
| "truthy (PBool b) = b"
| "truthy (PInt n) = (n \<noteq> 0)"
| "truthy (PStr s) = (s \<noteq> [])"
| "truthy (PPath p) = True"
| "truthy (PList xs) = (xs \<noteq> [])"
| "truthy (PDict d) = (d \<noteq> [])"

text \<open>\<^verbatim>\<open>x[k]\<close> with a string key: only a dictionary can be subscripted by a string.\<close>

fun getitem :: "pyval \<Rightarrow> string \<Rightarrow> error + pyval" where
  "getitem (PDict d) k = (case map_of d k of None \<Rightarrow> Inl KeyError | Some v \<Rightarrow> Inr v)"
| "getitem _ k = Inl TypeError"

fun setitem :: "pyval \<Rightarrow> string \<Rightarrow> pyval \<Rightarrow> error + pyval" where
  "setitem (PDict d) k v = Inr (PDict (upd k v d))"
| "setitem _ k v = Inl TypeError"

text \<open>\<^verbatim>\<open>x.get(k, default)\<close> and \<^verbatim>\<open>x.keys()\<close>: methods of dictionaries only.\<close>

fun dict_get :: "pyval \<Rightarrow> string \<Rightarrow> pyval \<Rightarrow> error + pyval" where
  "dict_get (PDict d) k dflt = (case map_of d k of None \<Rightarrow> Inr dflt | Some v \<Rightarrow> Inr v)"
| "dict_get _ k dflt = Inl AttributeError"

fun keys :: "pyval \<Rightarrow> error + string list" where
  "keys (PDict d) = Inr (map fst d)"
| "keys _ = Inl AttributeError"

text \<open>
  \<^verbatim>\<open>s in x\<close> for a string \<open>s\<close>: membership in a list, key membership in a dictionary,
  substring test in a string, TypeError for an object that is not a container.
\<close>

fun starts_with :: "string \<Rightarrow> string \<Rightarrow> bool" where
  "starts_with [] t = True"
| "starts_with (c # s) [] = False"
| "starts_with (c # s) (d # t) = (c = d \<and> starts_with s t)"

fun is_substring :: "string \<Rightarrow> string \<Rightarrow> bool" where
  "is_substring s [] = (s = [])"
| "is_substring s (d # t) = (starts_with s (d # t) \<or> is_substring s t)"

fun contains :: "string \<Rightarrow> pyval \<Rightarrow> error + bool" where
  "contains s (PList xs) = Inr (PStr s \<in> set xs)"
| "contains s (PDict d) = Inr (s \<in> set (map fst d))"
| "contains s (PStr t) = Inr (is_substring s t)"
| "contains s _ = Inl TypeError"

section \<open>Strings and paths\<close>

text \<open>
  A string is a list of bytes; \<^verbatim>\<open>str.lower\<close> is modelled on the ASCII letters (the case
  mapping of other scripts is outside the model).
\<close>

definition lower_char :: "char \<Rightarrow> char" where
  "lower_char c =
     (if 65 \<le> (of_char c :: nat) \<and> (of_char c :: nat) \<le> 90
      then char_of ((of_char c :: nat) + 32) else c)"

definition lower :: "string \<Rightarrow> string" where
  "lower s = map lower_char s"

text \<open>\<^verbatim>\<open>str(n)\<close> for a non-negative integer: its decimal digits.\<close>

fun str :: "nat \<Rightarrow> string" where
  "str n = (if n < 10 then [char_of (48 + n)]
            else str (n div 10) @ [char_of (48 + n mod 10)])"

declare str.simps [simp del]

text \<open>
  A path is the list of its components from the root. \<open>p / n\<close> appends one component;
  every name the program joins is taken to be a single component (no separator in it).
  The accessors follow pathlib: \<^verbatim>\<open>suffix\<close> is the part of the name from its last dot, unless
  that dot is the first or the last character of the name.
\<close>

definition joinpath :: "path \<Rightarrow> string \<Rightarrow> path" where
  "joinpath p n = p @ [n]"

definition parent :: "path \<Rightarrow> path" where
  "parent p = butlast p"

definition name :: "path \<Rightarrow> string" where
  "name p = (if p = [] then [] else last p)"

definition rfind_dot :: "string \<Rightarrow> nat option" where
  "rfind_dot n =
     (let r = takeWhile (\<lambda>c. c \<noteq> CHR ''.'') (rev n)
      in if length r = length n then None else Some (length n - length r - 1))"

definition suffix :: "path \<Rightarrow> string" where
  "suffix p =
     (case rfind_dot (name p) of
        None \<Rightarrow> []
      | Some i \<Rightarrow> if 0 < i \<and> i + 1 < length (name p) then drop i (name p) else [])"

definition stem :: "path \<Rightarrow> string" where
  "stem p =
     (case rfind_dot (name p) of
        None \<Rightarrow> name p
      | Some i \<Rightarrow> if 0 < i \<and> i + 1 < length (name p) then take i (name p) else name p)"

text \<open>
  \<^verbatim>\<open>Path(s)\<close> splits at the separator and drops empty components; \<^verbatim>\<open>expanduser\<close>
  replaces a leading \<^verbatim>\<open>~\<close> by the home directory; \<^verbatim>\<open>str(p)\<close> joins the components again.
\<close>

fun split_sep :: "string \<Rightarrow> string \<Rightarrow> string list" where
  "split_sep acc [] = (if acc = [] then [] else [acc])"
| "split_sep acc (c # s) =
     (if c = CHR ''/'' then (if acc = [] then split_sep [] s else acc # split_sep [] s)
      else split_sep (acc @ [c]) s)"

definition Path :: "string \<Rightarrow> path" where
  "Path s = split_sep [] s"

definition expanduser :: "path \<Rightarrow> path \<Rightarrow> path" where
  "expanduser hm p = (case p of [] \<Rightarrow> [] | c # rest \<Rightarrow> if c = ''~'' then hm @ rest else p)"

definition str_path :: "path \<Rightarrow> string" where
  "str_path p = (if p = [] then ''/'' else concat (map (\<lambda>c. CHR ''/'' # c) p))"

section \<open>The file system, the log and the environment\<close>

text \<open>
  The content of a file is either a JSON document (given by the value \<^verbatim>\<open>json.load\<close> reads
  from it), bytes that are not a JSON document, or what \<^verbatim>\<open>json.dump\<close> leaves behind when
  it stops at an object it cannot serialise: the file has been truncated by \<^verbatim>\<open>open(.., 'w')\<close>
  and holds a proper prefix of a document, which does not parse. Bytes that cannot even
  be decoded as text are not modelled.
\<close>

datatype content = Json pyval | Raw string | Truncated pyval

datatype node = Dir | File content

datatype level = INFO | WARNING | ERROR

text \<open>
  The world the program runs in: the home directory, the file system (a finite table from
  paths to nodes, in directory-listing order), the paths the operating system refuses to
  write, create or move (permission errors), and the log.
\<close>

record world =
  home :: path
  files :: "(path \<times> node) list"
  denied :: "path list"
  log :: "(level \<times> string) list"

definition logger :: "level \<Rightarrow> string \<Rightarrow> world \<Rightarrow> world" where
  "logger l msg w = w\<lparr>log := log w @ [(l, msg)]\<rparr>"

fun show_error :: "error \<Rightarrow> string" where
  "show_error KeyError = ''KeyError''"
| "show_error TypeError = ''TypeError''"
| "show_error AttributeError = ''AttributeError''"
| "show_error JSONDecodeError = ''JSONDecodeError''"
| "show_error FileNotFoundError = ''FileNotFoundError''"
| "show_error FileExistsError = ''FileExistsError''"
| "show_error NotADirectoryError = ''NotADirectoryError''"
| "show_error IsADirectoryError = ''IsADirectoryError''"
| "show_error PermissionError = ''PermissionError''"
| "show_error ShutilError = ''shutil.Error''"

definition lookup :: "world \<Rightarrow> path \<Rightarrow> node option" where
  "lookup w p = (if p = [] then Some Dir else map_of (files w) p)"

definition exists :: "world \<Rightarrow> path \<Rightarrow> bool" where
  "exists w p = (lookup w p \<noteq> None)"

definition is_dir :: "world \<Rightarrow> path \<Rightarrow> bool" where
  "is_dir w p = (lookup w p = Some Dir)"

definition is_file :: "world \<Rightarrow> path \<Rightarrow> bool" where
  "is_file w p = (case lookup w p of Some (File c) \<Rightarrow> True | _ \<Rightarrow> False)"

text \<open>\<^verbatim>\<open>Path.iterdir\<close>: the immediate children, in the order of the table.\<close>

definition iterdir :: "world \<Rightarrow> path \<Rightarrow> error + path list" where
  "iterdir w p =
     (case lookup w p of
        None \<Rightarrow> Inl FileNotFoundError
      | Some (File c) \<Rightarrow> Inl NotADirectoryError
      | Some Dir \<Rightarrow> Inr (filter (\<lambda>q. q \<noteq> [] \<and> parent q = p) (map fst (files w))))"

text \<open>\<^verbatim>\<open>os.mkdir\<close>, then \<^verbatim>\<open>Path.mkdir\<close> with \<^verbatim>\<open>exist_ok=True\<close>, without and with \<^verbatim>\<open>parents=True\<close>.\<close>

definition os_mkdir :: "world \<Rightarrow> path \<Rightarrow> error + world" where
  "os_mkdir w p =
     (if exists w p then Inl FileExistsError
      else case lookup w (parent p) of
             None \<Rightarrow> Inl FileNotFoundError
           | Some (File c) \<Rightarrow> Inl NotADirectoryError
           | Some Dir \<Rightarrow>
               if p \<in> set (denied w) then Inl PermissionError
               else Inr (w\<lparr>files := files w @ [(p, Dir)]\<rparr>))"

definition mkdir_exist_ok :: "world \<Rightarrow> path \<Rightarrow> error + world" where
  "mkdir_exist_ok w p =
     (case os_mkdir w p of
        Inr w' \<Rightarrow> Inr w'
      | Inl e \<Rightarrow> if e \<noteq> FileNotFoundError \<and> is_dir w p then Inr w else Inl e)"

fun mkdir_parents_rev :: "world \<Rightarrow> string list \<Rightarrow> error option \<times> world" where
  "mkdir_parents_rev w [] =
     (case mkdir_exist_ok w [] of Inl e \<Rightarrow> (Some e, w) | Inr w' \<Rightarrow> (None, w'))"
| "mkdir_parents_rev w (n # rp) =
     (case os_mkdir w (rev (n # rp)) of
        Inr w' \<Rightarrow> (None, w')
      | Inl e \<Rightarrow>
          if e = FileNotFoundError then
            (case mkdir_parents_rev w rp of
               (Some e', w') \<Rightarrow> (Some e', w')
             | (None, w') \<Rightarrow>
                 (case mkdir_exist_ok w' (rev (n # rp)) of
                    Inl e' \<Rightarrow> (Some e', w')
                  | Inr w'' \<Rightarrow> (None, w'')))
          else if is_dir w (rev (n # rp)) then (None, w) else (Some e, w))"

text \<open>The result is the exception raised, if any, and the world with the parents made so far.\<close>

definition mkdir_parents :: "world \<Rightarrow> path \<Rightarrow> error option \<times> world" where
  "mkdir_parents w p = mkdir_parents_rev w (rev p)"

text \<open>Reading and writing: \<^verbatim>\<open>open(p, 'r')\<close> with \<^verbatim>\<open>json.load\<close>, and \<^verbatim>\<open>open(p, 'w')\<close>.\<close>

fun json_load :: "content \<Rightarrow> error + pyval" where
  "json_load (Json v) = Inr v"
| "json_load (Raw s) = Inl JSONDecodeError"
| "json_load (Truncated v) = Inl JSONDecodeError"

definition read_file :: "world \<Rightarrow> path \<Rightarrow> error + content" where
  "read_file w p =
     (case lookup w p of
        None \<Rightarrow> Inl FileNotFoundError
      | Some Dir \<Rightarrow> Inl IsADirectoryError
      | Some (File c) \<Rightarrow> Inr c)"

definition open_w :: "path \<Rightarrow> world \<Rightarrow> error + world" where
  "open_w p w =
     (if is_dir w p then Inl IsADirectoryError
      else case lookup w (parent p) of
             None \<Rightarrow> Inl FileNotFoundError
           | Some (File c) \<Rightarrow> Inl NotADirectoryError
           | Some Dir \<Rightarrow>
               if p \<in> set (denied w) then Inl PermissionError
               else Inr (w\<lparr>files := upd p (File (Raw [])) (files w)\<rparr>))"

text \<open>A value can be serialised unless a path occurs in it.\<close>

fun serialisable :: "pyval \<Rightarrow> bool" where
  "serialisable (PPath p) = False"
| "serialisable (PList xs) = list_all serialisable xs"
| "serialisable (PDict d) = list_all (\<lambda>kv. serialisable (snd kv)) d"
| "serialisable _ = True"

text \<open>
  \<^verbatim>\<open>with open(p, 'w') as f: json.dump(v, f, indent=4)\<close>. The result is the exception
  raised, if any, and the world left behind: when the encoder meets a path it raises
  TypeError after the file has been truncated and partly written.
\<close>

definition write_json :: "path \<Rightarrow> pyval \<Rightarrow> world \<Rightarrow> error option \<times> world" where
  "write_json p v w =
     (case open_w p w of
        Inl e \<Rightarrow> (Some e, w)
      | Inr w' \<Rightarrow>
          if serialisable v then (None, w'\<lparr>files := upd p (File (Json v)) (files w')\<rparr>)
          else (Some TypeError, w'\<lparr>files := upd p (File (Truncated v)) (files w')\<rparr>))"

text \<open>\<^verbatim>\<open>shutil.copy2\<close>: into the directory when the destination is one.\<close>

definition write_bytes :: "path \<Rightarrow> content \<Rightarrow> world \<Rightarrow> error + world" where
  "write_bytes p c w =
     (case open_w p w of
        Inl e \<Rightarrow> Inl e
      | Inr w' \<Rightarrow> Inr (w'\<lparr>files := upd p (File c) (files w')\<rparr>))"

definition copy2 :: "path \<Rightarrow> path \<Rightarrow> world \<Rightarrow> error + world" where
  "copy2 src dst w =
     (case read_file w src of
        Inl e \<Rightarrow> Inl e
      | Inr c \<Rightarrow> write_bytes (if is_dir w dst then joinpath dst (name src) else dst) c w)"

text \<open>
  \<^verbatim>\<open>os.rename\<close> and \<^verbatim>\<open>shutil.move\<close> of one entry (the program moves regular files only).
  A move that fails leaves the file system as it was.
\<close>

definition os_rename :: "path \<Rightarrow> path \<Rightarrow> world \<Rightarrow> error + world" where
  "os_rename src dst w =
     (case lookup w src of
        None \<Rightarrow> Inl FileNotFoundError
      | Some nd \<Rightarrow>
          (case lookup w (parent dst) of
             None \<Rightarrow> Inl FileNotFoundError
           | Some (File c) \<Rightarrow> Inl NotADirectoryError
           | Some Dir \<Rightarrow>
               if is_dir w dst then Inl IsADirectoryError
               else if src \<in> set (denied w) \<or> dst \<in> set (denied w) then Inl PermissionError
               else Inr (w\<lparr>files := upd dst nd (filter (\<lambda>e. fst e \<noteq> src) (files w))\<rparr>)))"

definition shutil_move :: "path \<Rightarrow> path \<Rightarrow> world \<Rightarrow> error + world" where
  "shutil_move src dst w =
     (if is_dir w dst then
        (if exists w (joinpath dst (name src)) then Inl ShutilError
         else os_rename src (joinpath dst (name src)) w)
      else os_rename src dst w)"

section \<open>The program\<close>

subsection \<open>Paths of the application and the default configuration\<close>

definition APP_DATA_DIR :: "world \<Rightarrow> path" where
  "APP_DATA_DIR w = joinpath (joinpath (home w) ''.config'') ''tidybot''"

definition CONFIG_FILE :: "world \<Rightarrow> path" where
  "CONFIG_FILE w = joinpath (APP_DATA_DIR w) ''config.json''"

definition with_suffix :: "path \<Rightarrow> string \<Rightarrow> path" where
  "with_suffix p s = joinpath (parent p) (stem p @ s)"

definition create_default_config :: pyval where
  "create_default_config = PDict
     [(''initialized'', PBool True),
      (''downloads_path'', PStr ''~/Downloads''),
      (''file_categories'', PDict
         [(''Archives'', PList (map PStr
             [''.zip'', ''.rar'', ''.7z'', ''.tar'', ''.gz'', ''.bz2'', ''.xz'', ''.iso'',
              ''.dmg'', ''.pkg''])),
          (''Documents'', PList (map PStr
             [''.pdf'', ''.doc'', ''.docx'', ''.txt'', ''.rtf'', ''.odt'', ''.xls'', ''.xlsx'',
              ''.ppt'', ''.pptx'', ''.csv'', ''.md'', ''.epub'', ''.mobi''])),
          (''Graphics'', PList (map PStr
             [''.jpg'', ''.jpeg'', ''.png'', ''.gif'', ''.bmp'', ''.svg'', ''.webp'', ''.tiff'',
              ''.psd'', ''.raw'', ''.ico'', ''.heic'', ''.mp4'', ''.mov'', ''.avi'', ''.mkv'',
              ''.wmv'', ''.flv'', ''.webm'', ''.m4v'', ''.mp3'', ''.wav'', ''.flac'', ''.aac'',
              ''.ogg'', ''.wma'', ''.m4a'', ''.aiff'', ''.mid'', ''.midi''])),
          (''Others'', PList []),
          (''Programs'', PList (map PStr
             [''.exe'', ''.msi'', ''.deb'', ''.rpm'', ''.appimage'', ''.bat'', ''.sh'', ''.cmd'',
              ''.apk'', ''.dmg'', ''.pkg'']))])]"

subsection \<open>load_config\<close>

text \<open>\<^verbatim>\<open>Path(x)\<close> accepts a string or a path.\<close>

fun Path_of :: "pyval \<Rightarrow> error + path" where
  "Path_of (PStr s) = Inr (Path s)"
| "Path_of (PPath p) = Inr p"
| "Path_of _ = Inl TypeError"

text \<open>\<^verbatim>\<open>config["downloads_path"] = Path(config["downloads_path"]).expanduser()\<close>\<close>

definition expand_downloads :: "world \<Rightarrow> pyval \<Rightarrow> error + pyval" where
  "expand_downloads w config =
     (case getitem config ''downloads_path'' of
        Inl e \<Rightarrow> Inl e
      | Inr v \<Rightarrow>
          (case Path_of v of
             Inl e \<Rightarrow> Inl e
           | Inr p \<Rightarrow> setitem config ''downloads_path'' (PPath (expanduser (home w) p))))"

text \<open>
  The default configuration with its path expanded, as three branches build it. The home
  directory is always known in the model, so \<^verbatim>\<open>expanduser\<close> cannot fail.
\<close>

definition load_default :: "world \<Rightarrow> error + pyval" where
  "load_default w = expand_downloads w create_default_config"

text \<open>
  The handler of \<^verbatim>\<open>json.JSONDecodeError\<close>: back the file up (a failure is logged only),
  build the default configuration and write it to the configuration file.
\<close>

definition backup_corrupted :: "world \<Rightarrow> world" where
  "backup_corrupted w =
     (case copy2 (CONFIG_FILE w) (with_suffix (CONFIG_FILE w) ''.json.bak'') w of
        Inr w' \<Rightarrow>
          logger INFO (''Backup of corrupted config saved to: ''
                       @ str_path (with_suffix (CONFIG_FILE w) ''.json.bak'')) w'
      | Inl e \<Rightarrow> logger WARNING ''Could not create backup of corrupted config.'' w)"

definition write_default :: "world \<Rightarrow> (error + pyval) \<times> world" where
  "write_default w =
     (case load_default w of
        Inl e \<Rightarrow> (Inl e, w)
      | Inr config \<Rightarrow>
          (case write_json (CONFIG_FILE w) config w of
             (Some e, w') \<Rightarrow> (Inl e, w')
           | (None, w') \<Rightarrow> (Inr config, logger INFO ''New default config created.'' w')))"

definition repair_config :: "error \<Rightarrow> world \<Rightarrow> (error + pyval) \<times> world" where
  "repair_config e w =
     write_default (backup_corrupted
       (logger WARNING (''Config file is corrupted: '' @ show_error e
                        @ ''. Creating backup and generating new config.'') w))"

text \<open>\<^verbatim>\<open>with open(CONFIG_FILE, 'r') as f: config = json.load(f)\<close>\<close>

definition read_json :: "world \<Rightarrow> path \<Rightarrow> error + pyval" where
  "read_json w p = (case read_file w p of Inl e \<Rightarrow> Inl e | Inr c \<Rightarrow> json_load c)"

text \<open>The body of the outer \<^verbatim>\<open>try\<close>; \<open>Inl\<close> is an exception that leaves it.\<close>

definition load_config_try :: "world \<Rightarrow> (error + pyval) \<times> world" where
  "load_config_try w =
     (case mkdir_parents w (APP_DATA_DIR w) of
        (Some e, w1) \<Rightarrow> (Inl e, w1)
      | (None, w1) \<Rightarrow>
          if \<not> exists w1 (CONFIG_FILE w1) then
            (load_default w1,
             logger INFO ''No config file found. Creating default configuration.'' w1)
          else
            (case read_json w1 (CONFIG_FILE w1) of
               Inr config \<Rightarrow> (expand_downloads w1 config, w1)
             | Inl e \<Rightarrow>
                 if e = JSONDecodeError then repair_config e w1 else (Inl e, w1)))"

text \<open>The whole function: \<^verbatim>\<open>except Exception\<close> logs and returns the default in memory.\<close>

definition load_config :: "world \<Rightarrow> (error + pyval) \<times> world" where
  "load_config w =
     (case load_config_try w of
        (Inr config, w') \<Rightarrow> (Inr config, w')
      | (Inl e, w') \<Rightarrow>
          (load_default w',
           logger ERROR (''Unexpected error loading config: '' @ show_error e) w'))"

subsection \<open>get_available_name\<close>

text \<open>
  The \<^verbatim>\<open>while True\<close> loop; \<open>None\<close> stands for a search that never returns.
\<close>

partial_function (option) find_free :: "world \<Rightarrow> path \<Rightarrow> string \<Rightarrow> string \<Rightarrow> nat \<Rightarrow> path option" where
  "find_free w parent_dir stm sfx counter =
     (if \<not> exists w (joinpath parent_dir (stm @ '' ('' @ str counter @ '')'' @ sfx))
      then Some (joinpath parent_dir (stm @ '' ('' @ str counter @ '')'' @ sfx))
      else find_free w parent_dir stm sfx (counter + 1))"

declare find_free.simps [code]

definition get_available_name :: "world \<Rightarrow> path \<Rightarrow> path option" where
  "get_available_name w destination_path =
     (if \<not> exists w destination_path then Some destination_path
      else find_free w (parent destination_path) (stem destination_path)
             (suffix destination_path) 1)"

subsection \<open>sorter\<close>

text \<open>
  The chain of \<^verbatim>\<open>if file_suffix in categories[..]\<close> tests. A missing key raises KeyError
  at the test that looks it up; the name \<^verbatim>\<open>Others\<close> is never looked up.
\<close>

definition in_category :: "string \<Rightarrow> pyval \<Rightarrow> string \<Rightarrow> error + bool" where
  "in_category file_suffix categories k =
     (case getitem categories k of
        Inl e \<Rightarrow> Inl e
      | Inr exts \<Rightarrow> contains file_suffix exts)"

definition classify :: "string \<Rightarrow> pyval \<Rightarrow> error + string" where
  "classify file_suffix categories =
     (case in_category file_suffix categories ''Archives'' of
        Inl e \<Rightarrow> Inl e
      | Inr a \<Rightarrow>
          if a then Inr ''Archives''
          else
            (case in_category file_suffix categories ''Documents'' of
               Inl e \<Rightarrow> Inl e
             | Inr d \<Rightarrow>
                 if d then Inr ''Documents''
                 else
                   (case in_category file_suffix categories ''Graphics'' of
                      Inl e \<Rightarrow> Inl e
                    | Inr g \<Rightarrow>
                        if g then Inr ''Graphics''
                        else
                          (case in_category file_suffix categories ''Programs'' of
                             Inl e \<Rightarrow> Inl e
                           | Inr p \<Rightarrow> if p then Inr ''Programs'' else Inr ''Others''))))"

text \<open>The category of a directory entry: its suffix is lowercased before the lookup.\<close>

definition target_category :: "pyval \<Rightarrow> path \<Rightarrow> error + string" where
  "target_category categories item = classify (lower (suffix item)) categories"

text \<open>How a run of \<^verbatim>\<open>sorter\<close> ends.\<close>

datatype outcome =
    Done
  | NoConfig
  | NoDownloads
  | Raised error

text \<open>The two messages of a dry run and the two of a real move.\<close>

definition dry_run_message :: "path \<Rightarrow> path \<Rightarrow> path \<Rightarrow> path \<Rightarrow> string" where
  "dry_run_message item target_dir original_destination final_destination =
     (if original_destination = final_destination
      then ''[DRY RUN] Would move '' @ [CHR 0x27] @ name item @ [CHR 0x27] @ '' to ''
           @ [CHR 0x27] @ name target_dir @ ''/'' @ [CHR 0x27]
      else ''[DRY RUN] Would move '' @ [CHR 0x27] @ name item @ [CHR 0x27] @ '' to ''
           @ [CHR 0x27] @ name target_dir @ ''/'' @ [CHR 0x27] @ '' as ''
           @ [CHR 0x27] @ name final_destination @ [CHR 0x27])"

definition moved_message :: "path \<Rightarrow> path \<Rightarrow> path \<Rightarrow> path \<Rightarrow> string" where
  "moved_message item target_dir original_destination final_destination =
     (if original_destination = final_destination
      then ''Moved: '' @ name item @ '' -> '' @ name target_dir @ ''/''
      else ''Moved and renamed: '' @ name item @ '' -> '' @ name target_dir @ ''/''
           @ name final_destination)"

text \<open>
  The loop over the directory entries. A failed move is logged and the loop goes on; an
  exception of the classification leaves the loop and the function.
\<close>

fun process_items :: "bool \<Rightarrow> path \<Rightarrow> pyval \<Rightarrow> path list \<Rightarrow> world \<Rightarrow> (outcome \<times> world) option" where
  "process_items dry_run download_path categories [] w = Some (Done, w)"
| "process_items dry_run download_path categories (item # items) w =
     (if is_file w item then
        (case target_category categories item of
           Inl e \<Rightarrow> Some (Raised e, w)
         | Inr cat \<Rightarrow>
             (case get_available_name w (joinpath (joinpath download_path cat) (name item)) of
                None \<Rightarrow> None
              | Some final_destination \<Rightarrow>
                  if dry_run then
                    process_items dry_run download_path categories items
                      (logger INFO
                         (dry_run_message item (joinpath download_path cat)
                            (joinpath (joinpath download_path cat) (name item)) final_destination) w)
                  else
                    (case shutil_move item final_destination w of
                       Inr w' \<Rightarrow>
                         process_items dry_run download_path categories items
                           (logger INFO
                              (moved_message item (joinpath download_path cat)
                                 (joinpath (joinpath download_path cat) (name item))
                                 final_destination) w')
                     | Inl e \<Rightarrow>
                         process_items dry_run download_path categories items
                           (logger ERROR
                              (''Error moving '' @ name item @ '': '' @ show_error e) w))))
      else process_items dry_run download_path categories items w)"

text \<open>The loop over \<^verbatim>\<open>categories.keys()\<close> of the first run.\<close>

fun create_folders :: "bool \<Rightarrow> path \<Rightarrow> string list \<Rightarrow> world \<Rightarrow> error option \<times> world" where
  "create_folders dry_run download_path [] w = (None, w)"
| "create_folders dry_run download_path (folder_name # rest) w =
     (if dry_run then
        create_folders dry_run download_path rest
          (logger INFO (''[DRY RUN] Would create '' @ [CHR 0x27] @ str_path download_path
                        @ ''/'' @ folder_name @ [CHR 0x27]) w)
      else
        (case mkdir_exist_ok w (joinpath download_path folder_name) of
           Inl e \<Rightarrow> (Some e, w)
         | Inr w' \<Rightarrow>
             create_folders dry_run download_path rest
               (logger INFO (''Created folder: '' @ folder_name) w')))"

text \<open>
  Saving the configuration: a copy with the path turned back into a string
  (\<^verbatim>\<open>config["downloads_path"]\<close> is the path \<^verbatim>\<open>download_path\<close> read from it before).
  Every exception is logged.
\<close>

definition save_config :: "pyval \<Rightarrow> path \<Rightarrow> world \<Rightarrow> world" where
  "save_config config download_path w =
     (case setitem config ''downloads_path'' (PStr (str_path download_path)) of
        Inl e \<Rightarrow> logger ERROR (''Error saving config: '' @ show_error e) w
      | Inr config_for_save \<Rightarrow>
          (case write_json (CONFIG_FILE w) config_for_save w of
             (Some e, w') \<Rightarrow> logger ERROR (''Error saving config: '' @ show_error e) w'
           | (None, w') \<Rightarrow> logger INFO ''Config updated: initialized = True'' w'))"

text \<open>The block guarded by \<^verbatim>\<open>if not config.get("initialized", False)\<close>.\<close>

definition first_run :: "bool \<Rightarrow> pyval \<Rightarrow> path \<Rightarrow> pyval \<Rightarrow> world \<Rightarrow> (error + pyval) \<times> world" where
  "first_run dry_run config download_path categories w =
     (case dict_get config ''initialized'' (PBool False) of
        Inl e \<Rightarrow> (Inl e, w)
      | Inr ini \<Rightarrow>
          if truthy ini then (Inr config, w)
          else
            (case keys categories of
               Inl e \<Rightarrow>
                 (Inl e, logger INFO ''First run detected. Creating category folders...'' w)
             | Inr ks \<Rightarrow>
                 (case create_folders dry_run download_path ks
                         (logger INFO ''First run detected. Creating category folders...'' w) of
                    (Some e, w') \<Rightarrow> (Inl e, w')
                  | (None, w') \<Rightarrow>
                      (case setitem config ''initialized'' (PBool True) of
                         Inl e \<Rightarrow> (Inl e, w')
                       | Inr config' \<Rightarrow>
                           (Inr config',
                            if dry_run
                            then logger INFO
                                   (''[DRY RUN] Would set config['' @ [CHR 0x27] @ ''initialized''
                                    @ [CHR 0x27] @ ''] to True'') w'
                            else save_config config' download_path w')))))"

text \<open>What follows once the configuration and its two entries have been read.\<close>

definition organize :: "bool \<Rightarrow> pyval \<Rightarrow> path \<Rightarrow> pyval \<Rightarrow> world \<Rightarrow> (outcome \<times> world) option" where
  "organize dry_run config download_path categories w =
     (if \<not> exists w download_path then
        Some (NoDownloads,
              logger ERROR (''Downloads path does not exist: '' @ str_path download_path) w)
      else
        (case first_run dry_run config download_path categories w of
           (Inl e, w') \<Rightarrow> Some (Raised e, w')
         | (Inr config', w') \<Rightarrow>
             (case iterdir w' download_path of
                Inl e \<Rightarrow> Some (Raised e, w')
              | Inr items \<Rightarrow> process_items dry_run download_path categories items w')))"

definition sorter :: "bool \<Rightarrow> world \<Rightarrow> (outcome \<times> world) option" where
  "sorter dry_run w =
     (case load_config w of
        (Inl e, w') \<Rightarrow> Some (Raised e, w')
      | (Inr config, w') \<Rightarrow>
          if config = PNone then
            Some (NoConfig, logger ERROR ''Exiting: Could not load config.'' w')
          else
            (case getitem config ''downloads_path'' of
               Inl e \<Rightarrow> Some (Raised e, w')
             | Inr dp \<Rightarrow>
                 (case getitem config ''file_categories'' of
                    Inl e \<Rightarrow> Some (Raised e, w')
                  | Inr categories \<Rightarrow>
                      (case dp of
                         PPath download_path \<Rightarrow>
                           organize dry_run config download_path categories w'
                       | _ \<Rightarrow> Some (Raised AttributeError, w')))))"

section \<open>Definitions used to state the properties\<close>

text \<open>
  The candidate name of the specification: \<^verbatim>\<open>"{stem} ({counter}){suffix}"\<close> in the parent
  directory of the desired path.
\<close>

definition candidate :: "path \<Rightarrow> nat \<Rightarrow> path" where
  "candidate p counter =
     joinpath (parent p) (stem p @ '' ('' @ str counter @ '')'' @ suffix p)"

definition numbered :: "path \<Rightarrow> string \<Rightarrow> string \<Rightarrow> nat \<Rightarrow> path" where
  "numbered parent_dir stm sfx counter =
     joinpath parent_dir (stm @ '' ('' @ str counter @ '')'' @ sfx)"

definition decimal_value :: "string \<Rightarrow> nat" where
  "decimal_value s = foldl (\<lambda>a c. 10 * a + (of_char c - 48)) 0 s"

text \<open>
  The classification of the specification: the first category, in the fixed priority order,
  whose extension set contains the extension, and the fallback when there is none. The
  extension set of a category is the list stored under its name.
\<close>

definition priority_order :: "string list" where
  "priority_order = [''Archives'', ''Documents'', ''Graphics'', ''Programs'']"

definition has_extension :: "pyval \<Rightarrow> string \<Rightarrow> string \<Rightarrow> bool" where
  "has_extension categories ext c =
     (case getitem categories c of Inr (PList vs) \<Rightarrow> PStr ext \<in> set vs | _ \<Rightarrow> False)"

definition classify_spec :: "(string \<Rightarrow> bool) \<Rightarrow> string" where
  "classify_spec has = (case find has priority_order of Some c \<Rightarrow> c | None \<Rightarrow> ''Others'')"

text \<open>A mapping that stores a list under each of the four names of the priority order.\<close>

definition extension_lists :: "pyval \<Rightarrow> bool" where
  "extension_lists categories =
     list_all (\<lambda>c. case getitem categories c of Inr (PList vs) \<Rightarrow> True | _ \<Rightarrow> False)
       priority_order"

definition default_categories :: pyval where
  "default_categories =
     (case getitem create_default_config ''file_categories'' of Inr c \<Rightarrow> c | Inl e \<Rightarrow> PNone)"



subsection \<open>Observations of a run\<close>

text \<open>What a run leaves behind: how it ended, the file system, the log, one node.\<close>

definition outcome_of :: "(outcome \<times> world) option \<Rightarrow> outcome option" where
  "outcome_of r = map_option fst r"

definition files_after :: "(outcome \<times> world) option \<Rightarrow> (path \<times> node) list option" where
  "files_after r = map_option (\<lambda>x. files (snd x)) r"

definition log_after :: "(outcome \<times> world) option \<Rightarrow> (level \<times> string) list option" where
  "log_after r = map_option (\<lambda>x. log (snd x)) r"

definition node_after :: "(outcome \<times> world) option \<Rightarrow> path \<Rightarrow> node option" where
  "node_after r p = (case r of None \<Rightarrow> None | Some x \<Rightarrow> lookup (snd x) p)"

subsection \<open>Example worlds\<close>

definition photo_world :: world where
  "photo_world =
     \<lparr>home = [''home'', ''u''],
      files = [([''home''], Dir), ([''home'', ''u''], Dir), ([''home'', ''u'', ''Downloads''], Dir),
               ([''home'', ''u'', ''Downloads'', ''Graphics''], Dir),
               ([''home'', ''u'', ''Downloads'', ''Graphics'', ''photo.png''], File (Raw ''first''))],
      denied = [], log = []\<rparr>"

definition photo :: path where
  "photo = [''home'', ''u'', ''Downloads'', ''Graphics'', ''photo.png'']"

text \<open>
  Worlds with the home directory \<^verbatim>\<open>/home/u\<close>, the application directory and the downloads
  directory, to which files and refused paths are added; and configuration files as the
  program stores them.
\<close>

definition user_home :: path where
  "user_home = [''home'', ''u'']"

definition downloads :: path where
  "downloads = [''home'', ''u'', ''Downloads'']"

definition config_json :: path where
  "config_json = [''home'', ''u'', ''.config'', ''tidybot'', ''config.json'']"

definition config_bak :: path where
  "config_bak = [''home'', ''u'', ''.config'', ''tidybot'', ''config.json.bak'']"

definition base_dirs :: "(path \<times> node) list" where
  "base_dirs =
     [([''home''], Dir), ([''home'', ''u''], Dir), ([''home'', ''u'', ''.config''], Dir),
      ([''home'', ''u'', ''.config'', ''tidybot''], Dir), ([''home'', ''u'', ''Downloads''], Dir)]"

definition make_world :: "(path \<times> node) list \<Rightarrow> path list \<Rightarrow> world" where
  "make_world fs ds = \<lparr>home = user_home, files = base_dirs @ fs, denied = ds, log = []\<rparr>"

definition stored_config :: "bool \<Rightarrow> pyval \<Rightarrow> pyval" where
  "stored_config ini categories =
     PDict [(''initialized'', PBool ini), (''downloads_path'', PStr ''~/Downloads''),
            (''file_categories'', categories)]"

text \<open>No configuration file, one archive in the downloads directory.\<close>

definition fresh_world :: world where
  "fresh_world = make_world [(joinpath downloads ''a.zip'', File (Raw ''PK''))] []"

text \<open>A configuration file that does not parse.\<close>

definition corrupt_world :: world where
  "corrupt_world =
     make_world [(config_json, File (Raw ''{oops'')),
                 (joinpath downloads ''a.zip'', File (Raw ''PK''))] []"

text \<open>A first run with \<^verbatim>\<open>Graphics/photo.png\<close> in place and a new \<^verbatim>\<open>photo.png\<close> to sort.\<close>

definition collision_world :: world where
  "collision_world =
     make_world [(config_json, File (Json (stored_config False default_categories))),
                 (joinpath downloads ''photo.png'', File (Raw ''new'')),
                 (joinpath downloads ''Graphics'', Dir),
                 (joinpath (joinpath downloads ''Graphics'') ''photo.png'', File (Raw ''old''))] []"

definition new_photo :: path where
  "new_photo = joinpath downloads ''photo.png''"

definition renamed_photo :: path where
  "renamed_photo = joinpath (joinpath downloads ''Graphics'') ''photo (1).png''"




text \<open>Mappings without the key Others, with an additional category, without Documents.\<close>

definition no_others :: pyval where
  "no_others =
     PDict [(''Archives'', PList [PStr ''.zip'']), (''Documents'', PList [PStr ''.pdf'']),
            (''Graphics'', PList [PStr ''.png'']), (''Programs'', PList [PStr ''.exe''])]"

definition no_others_world :: world where
  "no_others_world =
     make_world [(config_json, File (Json (stored_config True no_others))),
                 (joinpath downloads ''Others'', Dir),
                 (joinpath downloads ''notes'', File (Raw ''n''))] []"

definition with_music :: "(string \<times> pyval) list" where
  "with_music =
     [(''Archives'', PList [PStr ''.zip'']), (''Documents'', PList [PStr ''.pdf'']),
      (''Graphics'', PList [PStr ''.png'']), (''Others'', PList []),
      (''Programs'', PList [PStr ''.exe'']), (''Music'', PList [PStr ''.mp3''])]"

definition music_world :: world where
  "music_world =
     make_world [(config_json, File (Json (stored_config False (PDict with_music)))),
                 (joinpath downloads ''song.mp3'', File (Raw ''ID3''))] []"

definition no_documents :: pyval where
  "no_documents =
     PDict [(''Archives'', PList [PStr ''.zip'']), (''Graphics'', PList [PStr ''.png'']),
            (''Others'', PList []), (''Programs'', PList [PStr ''.exe''])]"

section \<open>Name resolution\<close>

lemma decimal_value_str: "decimal_value (str n) = n"
proof (induction n rule: str.induct)
  case (1 n)
  show ?case
  proof (cases "n < 10")
    case True
    then show ?thesis by (simp add: str.simps [of n] decimal_value_def)
  next
    case False
    have "n mod 10 < 10" by simp
    then have "(48 + n mod 10) mod 256 = 48 + n mod 10" by simp
    with False 1 show ?thesis
      by (simp add: str.simps [of n] decimal_value_def)
  qed
qed

lemma str_inject: "str m = str n \<Longrightarrow> m = n"
  by (metis decimal_value_str)

lemma numbered_inject: "numbered d s x j = numbered d s x k \<Longrightarrow> j = k"
  by (auto simp: numbered_def joinpath_def dest: str_inject)

lemma inj_numbered: "inj (numbered d s x)"
  by (rule injI) (rule numbered_inject)

lemma exists_iff: "exists w p \<longleftrightarrow> p = [] \<or> p \<in> fst ` set (files w)"
  by (auto simp: exists_def lookup_def domIff simp flip: dom_map_of_conv_image_fst)

lemma finite_numbered_existing: "finite {k. exists w (numbered d s x k)}"
proof -
  have "{k. exists w (numbered d s x k)} \<subseteq> numbered d s x -` (insert [] (fst ` set (files w)))"
    by (auto simp: exists_iff)
  moreover have "finite (numbered d s x -` (insert [] (fst ` set (files w))))"
    by (rule finite_vimageI [OF _ inj_numbered]) simp
  ultimately show ?thesis by (rule finite_subset)
qed

lemma find_free_numbered:
  "find_free w d s x c =
     (if \<not> exists w (numbered d s x c) then Some (numbered d s x c) else find_free w d s x (Suc c))"
  by (subst find_free.simps) (simp add: numbered_def)

lemma find_free_least:
  "\<exists>k. c \<le> k \<and> find_free w d s x c = Some (numbered d s x k) \<and> \<not> exists w (numbered d s x k)
       \<and> (\<forall>j. c \<le> j \<and> j < k \<longrightarrow> exists w (numbered d s x j))"
proof (induction "card {k. c \<le> k \<and> exists w (numbered d s x k)}" arbitrary: c rule: less_induct)
  case less
  show ?case
  proof (cases "exists w (numbered d s x c)")
    case False
    then have "find_free w d s x c = Some (numbered d s x c)"
      by (subst find_free_numbered) simp
    with False show ?thesis by (intro exI [of _ c]) auto
  next
    case True
    let ?S = "\<lambda>c. {k. c \<le> k \<and> exists w (numbered d s x k)}"
    have fin: "finite (?S c)"
      by (rule finite_subset [OF _ finite_numbered_existing [of w d s x]]) auto
    have "c \<in> ?S c" "c \<notin> ?S (Suc c)" "?S (Suc c) \<subseteq> ?S c" using True by auto
    then have "?S (Suc c) \<subset> ?S c" by blast
    then have "card (?S (Suc c)) < card (?S c)" using fin by (rule psubset_card_mono [rotated])
    from less [OF this] obtain k where k: "Suc c \<le> k"
      "find_free w d s x (Suc c) = Some (numbered d s x k)" "\<not> exists w (numbered d s x k)"
      "\<forall>j. Suc c \<le> j \<and> j < k \<longrightarrow> exists w (numbered d s x j)" by blast
    have "find_free w d s x c = Some (numbered d s x k)"
      using True k(2) by (subst find_free_numbered) simp
    moreover have "\<forall>j. c \<le> j \<and> j < k \<longrightarrow> exists w (numbered d s x j)"
    proof (intro allI impI)
      fix j assume "c \<le> j \<and> j < k"
      then show "exists w (numbered d s x j)" using True k(4) by (cases "j = c") auto
    qed
    ultimately show ?thesis using k(1,3) by (intro exI [of _ k]) auto
  qed
qed



lemma candidate_numbered: "candidate p k = numbered (parent p) (stem p) (suffix p) k"
  by (simp add: candidate_def numbered_def)

lemma get_available_name_existing:
  assumes "exists w p"
  shows "\<exists>k. 1 \<le> k \<and> get_available_name w p = Some (candidate p k) \<and> \<not> exists w (candidate p k)
           \<and> (\<forall>j. 1 \<le> j \<and> j < k \<longrightarrow> exists w (candidate p j))"
  using find_free_least [of 1 w "parent p" "stem p" "suffix p"] assms
  by (simp add: get_available_name_def candidate_numbered)

lemma get_available_name_Some: "\<exists>q. get_available_name w p = Some q"
  using get_available_name_existing [of w p] by (cases "exists w p") (auto simp: get_available_name_def)



lemma photo_third:
  "get_available_name
     (photo_world\<lparr>files := files photo_world @
        [([''home'', ''u'', ''Downloads'', ''Graphics'', ''photo (1).png''], File (Raw ''second''))]\<rparr>)
     photo = Some [''home'', ''u'', ''Downloads'', ''Graphics'', ''photo (2).png'']"
  by code_simp


section \<open>Classification\<close>

lemma extension_listsD:
  assumes "extension_lists categories"
  obtains a d g p where "getitem categories ''Archives'' = Inr (PList a)"
    "getitem categories ''Documents'' = Inr (PList d)"
    "getitem categories ''Graphics'' = Inr (PList g)"
    "getitem categories ''Programs'' = Inr (PList p)"
  using assms
  by (auto simp: extension_lists_def priority_order_def split: sum.splits pyval.splits)

lemma classify_extension_lists:
  assumes "extension_lists categories"
  shows "classify ext categories = Inr (classify_spec (has_extension categories ext))"
proof -
  from assms obtain a d g p where "getitem categories ''Archives'' = Inr (PList a)"
    "getitem categories ''Documents'' = Inr (PList d)"
    "getitem categories ''Graphics'' = Inr (PList g)"
    "getitem categories ''Programs'' = Inr (PList p)"
    by (rule extension_listsD)
  then show ?thesis
    by (simp add: classify_def in_category_def classify_spec_def has_extension_def
        priority_order_def)
qed

text \<open>
  C3. For every extension string, classification checks the categories in the fixed
  priority order Archives, Documents, Graphics, Programs: the first one whose extension set
  contains the extension wins, and when none does the result is the fallback Others.
\<close>

theorem classify_priority_order:
  "extension_lists categories \<Longrightarrow>
   classify ext categories = Inr (classify_spec (has_extension categories ext))"
  by (rule classify_extension_lists)

theorem classify_priority_order_witness:
  "extension_lists default_categories
   \<and> classify ''.dmg'' default_categories = Inr ''Archives''
   \<and> classify ''.pkg'' default_categories = Inr ''Archives''
   \<and> classify ''.xyz'' default_categories = Inr ''Others''"
proof -
  have h: "extension_lists default_categories" by code_simp
  have "classify_spec (has_extension default_categories ''.dmg'') = ''Archives''" by code_simp
  moreover have "classify_spec (has_extension default_categories ''.pkg'') = ''Archives''" by code_simp
  moreover have "classify_spec (has_extension default_categories ''.xyz'') = ''Others''" by code_simp
  ultimately show ?thesis
    using h classify_priority_order [OF h] by simp
qed






section \<open>Logging leaves the file system alone\<close>

lemma logger_fields [simp]:
  "files (logger l m w) = files w" "home (logger l m w) = home w"
  "denied (logger l m w) = denied w" "log (logger l m w) = log w @ [(l, m)]"
  by (simp_all add: logger_def)

lemma logger_lookup [simp]: "lookup (logger l m w) = lookup w"
  by (rule ext) (simp add: lookup_def)

lemma logger_tests [simp]:
  "exists (logger l m w) p = exists w p" "is_dir (logger l m w) p = is_dir w p"
  "is_file (logger l m w) p = is_file w p"
  by (simp_all add: exists_def is_dir_def is_file_def)

section \<open>Loading the configuration\<close>

lemma load_default_dict: "\<exists>d. load_default w = Inr (PDict d)"
  by (simp add: load_default_def expand_downloads_def create_default_config_def)

lemma expand_downloads_dict: "expand_downloads w c = Inr c' \<Longrightarrow> \<exists>d. c' = PDict d"
  by (cases c) (auto simp: expand_downloads_def split: sum.splits option.splits)

lemma write_default_dict: "write_default w = (Inr c, w') \<Longrightarrow> \<exists>d. c = PDict d"
  using load_default_dict [of w]
  by (auto simp: write_default_def split: sum.splits prod.splits option.splits)

lemma load_config_try_dict:
  assumes "load_config_try w = (Inr c, w')"
  shows "\<exists>d. c = PDict d"
proof (cases "mkdir_parents w (APP_DATA_DIR w)")
  case (Pair r w1)
  show ?thesis
  proof (cases r)
    case (Some e)
    with Pair assms show ?thesis by (simp add: load_config_try_def)
  next
    case None
    show ?thesis
    proof (cases "exists w1 (CONFIG_FILE w1)")
      case False
      with Pair None assms have "load_default w1 = Inr c" by (simp add: load_config_try_def)
      with load_default_dict [of w1] show ?thesis by auto
    next
      case True
      show ?thesis
      proof (cases "read_json w1 (CONFIG_FILE w1)")
        case (Inr config)
        with Pair None True assms have "expand_downloads w1 config = Inr c"
          by (auto simp: load_config_try_def)
        then show ?thesis by (rule expand_downloads_dict)
      next
        case (Inl e)
        with Pair None True assms have "repair_config e w1 = (Inr c, w')"
          by (auto simp: load_config_try_def split: if_splits)
        then show ?thesis unfolding repair_config_def by (rule write_default_dict)
      qed
    qed
  qed
qed

lemma load_config_dict: "\<exists>d. fst (load_config w) = Inr (PDict d)"
proof (cases "load_config_try w")
  case (Pair r w')
  show ?thesis
  proof (cases r)
    case (Inl e)
    with Pair load_default_dict [of w'] show ?thesis by (auto simp: load_config_def)
  next
    case (Inr c)
    with Pair load_config_try_dict [of w c w'] show ?thesis by (auto simp: load_config_def)
  qed
qed

lemma mkdir_parents_existing:
  assumes "is_dir w p" "p \<noteq> []"
  shows "mkdir_parents w p = (None, w)"
proof -
  from assms(2) obtain n rp where r: "rev p = n # rp" by (cases "rev p") auto
  then have p: "rev (n # rp) = p" by (metis rev_rev_ident)
  have "os_mkdir w p = Inl FileExistsError"
    using assms(1) by (simp add: os_mkdir_def exists_def is_dir_def)
  with assms(1) show ?thesis
    unfolding mkdir_parents_def r mkdir_parents_rev.simps p by simp
qed

lemma load_config_files:
  assumes "is_dir w (APP_DATA_DIR w)" "read_json w (CONFIG_FILE w) \<noteq> Inl JSONDecodeError"
  shows "files (snd (load_config w)) = files w"
proof -
  have m: "mkdir_parents w (APP_DATA_DIR w) = (None, w)"
    using assms(1) by (intro mkdir_parents_existing) (simp_all add: APP_DATA_DIR_def joinpath_def)
  have "files (snd (load_config_try w)) = files w"
  proof (cases "exists w (CONFIG_FILE w)")
    case False
    with m show ?thesis by (simp add: load_config_try_def)
  next
    case True
    with m assms(2) show ?thesis
      by (cases "read_json w (CONFIG_FILE w)") (simp_all add: load_config_try_def)
  qed
  moreover obtain r w' where t: "load_config_try w = (r, w')" by (cases "load_config_try w")
  ultimately have "files w' = files w" by simp
  with t show ?thesis by (cases r) (simp_all add: load_config_def)
qed

lemma write_default_raises: "\<exists>e. fst (write_default w) = Inl e"
  by (simp add: write_default_def load_default_def expand_downloads_def create_default_config_def
      write_json_def split: sum.splits)

section \<open>The loop over the directory entries\<close>

lemma process_items_total: "\<exists>r w'. process_items dry dl cats items w = Some (r, w')"
proof (induction items arbitrary: w)
  case Nil
  show ?case by simp
next
  case (Cons item items)
  show ?case
  proof (cases "is_file w item")
    case False
    with Cons show ?thesis by simp
  next
    case True
    show ?thesis
    proof (cases "target_category cats item")
      case (Inl e)
      with True show ?thesis by simp
    next
      case (Inr cat)
      obtain fd where fd: "get_available_name w (joinpath (joinpath dl cat) (name item)) = Some fd"
        using get_available_name_Some by blast
      show ?thesis
      proof (cases dry)
        case True
        with \<open>is_file w item\<close> Inr fd Cons show ?thesis by simp
      next
        case False
        with \<open>is_file w item\<close> Inr fd Cons show ?thesis
          by (cases "shutil_move item fd w") simp_all
      qed
    qed
  qed
qed

lemma process_items_outcome:
  "process_items dry dl cats items w = Some (r, w') \<Longrightarrow> r = Done \<or> (\<exists>e. r = Raised e)"
proof (induction items arbitrary: w)
  case Nil
  then show ?case by simp
next
  case (Cons item items)
  then show ?case
    by (auto split: if_splits sum.splits option.splits)
qed

lemma process_items_dry_files:
  "process_items True dl cats items w = Some (r, w') \<Longrightarrow> files w' = files w"
proof (induction items arbitrary: w)
  case Nil
  then show ?case by simp
next
  case (Cons item items)
  then show ?case
    by (fastforce split: if_splits sum.splits option.splits)
qed


lemma process_items_dry_step:
  assumes "is_file w item" "target_category categories item = Inr cat"
    and "get_available_name w (joinpath (joinpath dl cat) (name item)) = Some fd"
  shows "process_items True dl categories (item # items) w
         = process_items True dl categories items
             (logger INFO
                (dry_run_message item (joinpath dl cat) (joinpath (joinpath dl cat) (name item)) fd) w)"
  using assms by simp



section \<open>The first run\<close>

lemma create_folders_dry: "create_folders True dl ks w = (r, w') \<Longrightarrow> r = None \<and> files w' = files w"
  by (induction ks arbitrary: w) auto

lemma first_run_dry_files: "files (snd (first_run True config dl cats w)) = files w"
  by (auto simp: first_run_def split: sum.splits prod.splits option.splits dest: create_folders_dry)

lemma map_of_upd: "map_of (upd k v xs) = (map_of xs)(k \<mapsto> v)"
  by (induction xs) auto

lemma os_mkdir_dirs:
  assumes "os_mkdir w p = Inr w'"
  shows "is_dir w' p" "is_dir w q \<Longrightarrow> is_dir w' q"
  using assms
  by (auto simp: os_mkdir_def is_dir_def exists_def lookup_def map_add_def
      split: if_splits option.splits node.splits)

lemma mkdir_exist_ok_dirs:
  assumes "mkdir_exist_ok w p = Inr w'"
  shows "is_dir w' p" "is_dir w q \<Longrightarrow> is_dir w' q"
  using assms os_mkdir_dirs [of w p]
  by (auto simp: mkdir_exist_ok_def split: sum.splits if_splits)

lemma create_folders_dirs:
  "create_folders False dl ks w = (None, w') \<Longrightarrow>
   (\<forall>q. is_dir w q \<longrightarrow> is_dir w' q) \<and> (\<forall>k\<in>set ks. is_dir w' (joinpath dl k))"
proof (induction ks arbitrary: w)
  case Nil
  then show ?case by simp
next
  case (Cons k ks)
  from Cons.prems obtain w1 where w1: "mkdir_exist_ok w (joinpath dl k) = Inr w1"
    and rest: "create_folders False dl ks (logger INFO (''Created folder: '' @ k) w1) = (None, w')"
    by (auto split: sum.splits)
  from Cons.IH [OF rest] mkdir_exist_ok_dirs [OF w1] show ?case by auto
qed

lemma open_w_dirs: "open_w p w = Inr w' \<Longrightarrow> is_dir w' q = is_dir w q"
  by (auto simp: open_w_def is_dir_def lookup_def map_of_upd split: if_splits option.splits node.splits)

lemma write_json_dirs: "write_json p v w = (r, w') \<Longrightarrow> is_dir w q \<Longrightarrow> is_dir w' q"
  by (auto simp: write_json_def open_w_def is_dir_def lookup_def map_of_upd
      split: sum.splits if_splits option.splits node.splits)

lemma save_config_dirs: "is_dir w q \<Longrightarrow> is_dir (save_config c dl w) q"
  by (auto simp: save_config_def split: sum.splits prod.splits option.splits dest: write_json_dirs)

lemma first_run_dirs:
  assumes "dict_get config ''initialized'' (PBool False) = Inr ini" "\<not> truthy ini"
    and "first_run False config dl (PDict d) w = (Inr config', w')"
  shows "\<forall>k\<in>set (map fst d). is_dir w' (joinpath dl k)"
proof -
  from assms obtain w1 where cf: "create_folders False dl (map fst d)
      (logger INFO ''First run detected. Creating category folders...'' w) = (None, w1)"
    and w': "w' = save_config config' dl w1"
    by (auto simp: first_run_def split: sum.splits prod.splits option.splits)
  from create_folders_dirs [OF cf] w' show ?thesis by (auto intro: save_config_dirs)
qed

section \<open>Whole runs\<close>

lemma organize_dry_files: "files_after (organize True config dl cats w) = Some (files w)"
proof (cases "exists w dl")
  case False
  then show ?thesis by (simp add: organize_def files_after_def)
next
  case True
  obtain r w1 where fr: "first_run True config dl cats w = (r, w1)" by (cases "first_run True config dl cats w")
  then have f1: "files w1 = files w" using first_run_dry_files [of config dl cats w] by simp
  show ?thesis
  proof (cases r)
    case (Inl e)
    with True fr f1 show ?thesis by (simp add: organize_def files_after_def)
  next
    case (Inr c)
    show ?thesis
    proof (cases "iterdir w1 dl")
      case (Inl e)
      with True fr f1 Inr show ?thesis by (simp add: organize_def files_after_def)
    next
      case (Inr items)
      obtain r2 w2 where p: "process_items True dl cats items w1 = Some (r2, w2)"
        using process_items_total by blast
      then have "files w2 = files w1" by (rule process_items_dry_files)
      with True fr f1 \<open>r = Inr c\<close> Inr p show ?thesis by (simp add: organize_def files_after_def)
    qed
  qed
qed

lemma sorter_dry_files: "files_after (sorter True w) = Some (files (snd (load_config w)))"
proof -
  obtain r w1 where lc: "load_config w = (r, w1)" by (cases "load_config w")
  show ?thesis
    using lc organize_dry_files [of _ _ _ w1]
    by (auto simp: sorter_def files_after_def split: sum.splits pyval.splits)
qed

lemma organize_outcome:
  "organize dry config dl cats w = Some (r, w') \<Longrightarrow> r \<noteq> NoConfig"
  by (auto simp: organize_def split: if_splits sum.splits prod.splits dest: process_items_outcome)

lemma sorter_outcome: "outcome_of (sorter dry w) \<noteq> Some NoConfig"
proof -
  obtain r w1 where lc: "load_config w = (r, w1)" by (cases "load_config w")
  with load_config_dict [of w] obtain d where r: "r = Inr (PDict d)" by auto
  show ?thesis
    using lc r
    by (auto simp: sorter_def outcome_of_def split: sum.splits pyval.splits dest: organize_outcome)
qed

section \<open>Literal category names\<close>

lemma classify_names: "classify ext categories = Inr c \<Longrightarrow> c \<in> set priority_order \<union> {''Others''}"
  by (auto simp: classify_def priority_order_def split: sum.splits if_splits)

lemma classify_missing_key:
  assumes "k \<in> set priority_order" "getitem categories k = Inl KeyError"
    and "\<forall>c\<in>set (takeWhile (\<lambda>c. c \<noteq> k) priority_order). in_category ext categories c = Inr False"
  shows "classify ext categories = Inl KeyError"
proof -
  have err: "in_category ext categories k = Inl KeyError"
    using assms(2) by (simp add: in_category_def)
  from assms(1) consider "k = ''Archives''" | "k = ''Documents''" | "k = ''Graphics''"
    | "k = ''Programs''"
    by (auto simp: priority_order_def)
  then show ?thesis
  proof cases
    case 1
    with err show ?thesis by (simp add: classify_def)
  next
    case 2
    with assms(3) have "in_category ext categories ''Archives'' = Inr False"
      by (simp add: priority_order_def)
    with 2 err show ?thesis by (simp add: classify_def)
  next
    case 3
    with assms(3) have "in_category ext categories ''Archives'' = Inr False"
      "in_category ext categories ''Documents'' = Inr False"
      by (simp_all add: priority_order_def)
    with 3 err show ?thesis by (simp add: classify_def)
  next
    case 4
    with assms(3) have "in_category ext categories ''Archives'' = Inr False"
      "in_category ext categories ''Documents'' = Inr False"
      "in_category ext categories ''Graphics'' = Inr False"
      by (simp_all add: priority_order_def)
    with 4 err show ?thesis by (simp add: classify_def)
  qed
qed

lemma map_of_filter_other:
  "k \<noteq> x \<Longrightarrow> map_of (filter (\<lambda>kv. fst kv \<noteq> x) d) k = map_of d k"
  by (induction d) auto

lemma in_category_without_others:
  "k \<noteq> ''Others'' \<Longrightarrow>
   in_category ext (PDict (filter (\<lambda>kv. fst kv \<noteq> ''Others'') d)) k = in_category ext (PDict d) k"
  by (simp add: in_category_def map_of_filter_other)

lemma classify_without_others:
  "classify ext (PDict (filter (\<lambda>kv. fst kv \<noteq> ''Others'') d)) = classify ext (PDict d)"
proof -
  let ?d = "PDict (filter (\<lambda>kv. fst kv \<noteq> ''Others'') d)"
  have "in_category ext ?d ''Archives'' = in_category ext (PDict d) ''Archives''"
    "in_category ext ?d ''Documents'' = in_category ext (PDict d) ''Documents''"
    "in_category ext ?d ''Graphics'' = in_category ext (PDict d) ''Graphics''"
    "in_category ext ?d ''Programs'' = in_category ext (PDict d) ''Programs''"
    by (simp_all add: in_category_without_others)
  then show ?thesis by (simp only: classify_def)
qed

section \<open>Properties of the organizer\<close>

text \<open>
  C1. With no configuration file on disk, a non-dry run should create the configured
  category folders and set the initialized flag. The default configuration is built with
  \<^verbatim>\<open>initialized\<close> already true, so the run skips the first-run block: it creates no folder
  and writes no configuration, and the move of the archive fails because its category
  folder is missing.
\<close>

theorem fresh_run_creates_no_folders:
  "dict_get create_default_config ''initialized'' (PBool False) = Inr (PBool True)
   \<and> outcome_of (sorter False fresh_world) = Some Done
   \<and> files_after (sorter False fresh_world) = Some (files fresh_world)
   \<and> log_after (sorter False fresh_world)
       = Some [(INFO, ''No config file found. Creating default configuration.''),
               (ERROR, ''Error moving a.zip: FileNotFoundError'')]"
  by code_simp

text \<open>
  C2. Loading a configuration file that does not parse backs the file up and returns the
  default configuration, but the default it writes holds a path object, which cannot be
  serialised: the configuration file is left truncated and still does not parse, and the
  next load overwrites the backup with the truncated file.
\<close>

theorem corrupt_config_repair_not_durable:
  "fst (load_config corrupt_world) = load_default corrupt_world
   \<and> read_file (snd (load_config corrupt_world)) config_bak = Inr (Raw ''{oops'')
   \<and> read_json (snd (load_config corrupt_world)) config_json = Inl JSONDecodeError
   \<and> log (snd (load_config corrupt_world))
       = [(WARNING, ''Config file is corrupted: JSONDecodeError. Creating backup and generating new config.''),
          (INFO, ''Backup of corrupted config saved to: /home/u/.config/tidybot/config.json.bak''),
          (ERROR, ''Unexpected error loading config: TypeError'')]
   \<and> read_file (snd (load_config (snd (load_config corrupt_world)))) config_bak
       \<noteq> Inr (Raw ''{oops'')"
  by code_simp

text \<open>
  C5, as stated, fails: a dry run on a configuration file that does not parse creates the
  backup file and rewrites the configuration file, because loading the configuration does
  not know about the dry run.
\<close>

theorem dry_run_repairs_config_counterexample:
  "lookup corrupt_world config_bak = None
   \<and> node_after (sorter True corrupt_world) config_bak = Some (File (Raw ''{oops''))
   \<and> files_after (sorter True corrupt_world) \<noteq> None
   \<and> files_after (sorter True corrupt_world) \<noteq> Some (files corrupt_world)"
  by code_simp

text \<open>
  C5, amended. Under dry run the steps of the engine itself only log: the file system after
  the run is the one that loading the configuration left, and it is the initial one when the
  application directory exists and the configuration file does not fail to parse. For each
  regular file the run logs one message, which tells a plain move from a move with a rename
  (when the resolved name differs from the original), and goes on with the next entry.
\<close>

theorem dry_run_frame:
  "files_after (sorter True w) = Some (files (snd (load_config w)))
   \<and> (is_dir w (APP_DATA_DIR w) \<and> read_json w (CONFIG_FILE w) \<noteq> Inl JSONDecodeError
        \<longrightarrow> files_after (sorter True w) = Some (files w))
   \<and> (is_file w item \<and> target_category categories item = Inr cat
        \<and> get_available_name w (joinpath (joinpath dl cat) (name item)) = Some fd
        \<longrightarrow> process_items True dl categories (item # items) w
            = process_items True dl categories items
                (logger INFO
                   (dry_run_message item (joinpath dl cat)
                      (joinpath (joinpath dl cat) (name item)) fd) w))"
  using sorter_dry_files [of w] load_config_files [of w]
    process_items_dry_step [of w item categories cat dl fd items]
  by simp

theorem dry_run_frame_witness:
  "is_dir collision_world (APP_DATA_DIR collision_world)
   \<and> read_json collision_world (CONFIG_FILE collision_world) \<noteq> Inl JSONDecodeError
   \<and> files_after (sorter True collision_world) = Some (files collision_world)
   \<and> is_file collision_world new_photo
   \<and> target_category default_categories new_photo = Inr ''Graphics''
   \<and> get_available_name collision_world (joinpath (joinpath downloads ''Graphics'') (name new_photo))
       = Some renamed_photo
   \<and> log_after (process_items True downloads default_categories [new_photo] collision_world)
       = Some [(INFO, ''[DRY RUN] Would move '' @ [CHR 0x27] @ ''photo.png'' @ [CHR 0x27] @ '' to ''
                      @ [CHR 0x27] @ ''Graphics/'' @ [CHR 0x27] @ '' as ''
                      @ [CHR 0x27] @ ''photo (1).png'' @ [CHR 0x27])]"
proof -
  have h1: "is_dir collision_world (APP_DATA_DIR collision_world)
      \<and> read_json collision_world (CONFIG_FILE collision_world) \<noteq> Inl JSONDecodeError"
    by code_simp
  have h2: "is_file collision_world new_photo
      \<and> target_category default_categories new_photo = Inr ''Graphics''
      \<and> get_available_name collision_world (joinpath (joinpath downloads ''Graphics'') (name new_photo))
          = Some renamed_photo"
    by code_simp
  note t = dry_run_frame [of collision_world new_photo default_categories "''Graphics''" downloads
      renamed_photo "[]"]
  from t h1 have c1: "files_after (sorter True collision_world) = Some (files collision_world)"
    by blast
  from t h2 have c2: "process_items True downloads default_categories [new_photo] collision_world
      = process_items True downloads default_categories []
          (logger INFO
             (dry_run_message new_photo (joinpath downloads ''Graphics'')
                (joinpath (joinpath downloads ''Graphics'') (name new_photo)) renamed_photo)
             collision_world)"
    by blast
  have e: "log_after (process_items True downloads default_categories []
          (logger INFO
             (dry_run_message new_photo (joinpath downloads ''Graphics'')
                (joinpath (joinpath downloads ''Graphics'') (name new_photo)) renamed_photo)
             collision_world))
      = Some [(INFO, ''[DRY RUN] Would move '' @ [CHR 0x27] @ ''photo.png'' @ [CHR 0x27] @ '' to ''
                      @ [CHR 0x27] @ ''Graphics/'' @ [CHR 0x27] @ '' as ''
                      @ [CHR 0x27] @ ''photo (1).png'' @ [CHR 0x27])]"
    by code_simp
  from e have c3: "log_after (process_items True downloads default_categories [new_photo] collision_world)
      = Some [(INFO, ''[DRY RUN] Would move '' @ [CHR 0x27] @ ''photo.png'' @ [CHR 0x27] @ '' to ''
                      @ [CHR 0x27] @ ''Graphics/'' @ [CHR 0x27] @ '' as ''
                      @ [CHR 0x27] @ ''photo (1).png'' @ [CHR 0x27])]"
    unfolding c2 .
  from h1 h2 c1 c3 show ?thesis by blast
qed



text \<open>
  C9. \<^verbatim>\<open>load_config\<close> always returns a dictionary, never \<^verbatim>\<open>None\<close> and never an exception,
  so no run of \<^verbatim>\<open>sorter\<close> ends in the branch guarded by \<^verbatim>\<open>config is None\<close>.
\<close>

theorem load_config_never_none:
  "(\<exists>d. fst (load_config w) = Inr (PDict d)) \<and> outcome_of (sorter dry_run w) \<noteq> Some NoConfig"
  using load_config_dict [of w] sorter_outcome [of dry_run w] by simp

text \<open>
  C10, as stated, fails: the key Others is never looked up, so a mapping without it raises
  no lookup error; the run classifies the unmatched file into Others and moves it there.
\<close>

theorem missing_others_counterexample:
  "getitem no_others ''Others'' = Inl KeyError
   \<and> classify ''.xyz'' no_others = Inr ''Others''
   \<and> outcome_of (sorter False no_others_world) = Some Done
   \<and> log_after (sorter False no_others_world) = Some [(INFO, ''Moved: notes -> Others/'')]"
  by code_simp

text \<open>
  C10, amended. Classification only ever answers one of the five literal names, so no file
  is classified into an additional category, although a non-dry first run that completes
  leaves a folder for every key of the mapping. When one of the four keys Archives,
  Documents, Graphics, Programs is absent and no category checked before it contains the
  extension, classification raises KeyError. The key Others is not looked up: removing it
  changes no classification.
\<close>

theorem classification_literal_names:
  "(classify ext categories = Inr c \<longrightarrow> c \<in> set priority_order \<union> {''Others''})
   \<and> (dict_get config ''initialized'' (PBool False) = Inr ini \<and> \<not> truthy ini
        \<and> first_run False config dl (PDict d) w = (Inr config', w')
        \<longrightarrow> (\<forall>k\<in>set (map fst d). is_dir w' (joinpath dl k)))
   \<and> (k \<in> set priority_order \<and> getitem broken k = Inl KeyError
        \<and> (\<forall>c\<in>set (takeWhile (\<lambda>c. c \<noteq> k) priority_order).
              in_category ext' broken c = Inr False)
        \<longrightarrow> classify ext' broken = Inl KeyError)
   \<and> classify ext (PDict (filter (\<lambda>kv. fst kv \<noteq> ''Others'') d'))
       = classify ext (PDict d')"
  using classify_names [of ext categories c]
    first_run_dirs [of config ini dl d w config' w']
    classify_missing_key [of k broken ext']
    classify_without_others [of ext d']
  by blast

theorem classification_literal_names_witness:
  "classify ''.mp3'' (PDict with_music) = Inr ''Others''
   \<and> dict_get (stored_config False (PDict with_music)) ''initialized'' (PBool False)
       = Inr (PBool False)
   \<and> \<not> truthy (PBool False)
   \<and> fst (first_run False (stored_config False (PDict with_music)) downloads (PDict with_music)
            music_world) = Inr (stored_config True (PDict with_music))
   \<and> is_dir (snd (first_run False (stored_config False (PDict with_music)) downloads
                  (PDict with_music) music_world)) (joinpath downloads ''Music'')
   \<and> ''Documents'' \<in> set priority_order
   \<and> getitem no_documents ''Documents'' = Inl KeyError
   \<and> takeWhile (\<lambda>c. c \<noteq> ''Documents'') priority_order = [''Archives'']
   \<and> in_category ''.png'' no_documents ''Archives'' = Inr False
   \<and> classify ''.png'' no_documents = Inl KeyError
   \<and> classify ''.mp3'' (PDict (filter (\<lambda>kv. fst kv \<noteq> ''Others'') with_music)) = Inr ''Others''"
proof -
  let ?cfg = "stored_config False (PDict with_music)"
  let ?run = "first_run False ?cfg downloads (PDict with_music) music_world"
  have h1: "classify ''.mp3'' (PDict with_music) = Inr ''Others''" by code_simp
  have h2: "dict_get ?cfg ''initialized'' (PBool False) = Inr (PBool False) \<and> \<not> truthy (PBool False)"
    by code_simp
  have h3: "fst ?run = Inr (stored_config True (PDict with_music))" by code_simp
  then have h3': "?run = (Inr (stored_config True (PDict with_music)), snd ?run)"
    by (metis prod.collapse)
  have h4: "''Documents'' \<in> set priority_order \<and> getitem no_documents ''Documents'' = Inl KeyError"
    by code_simp
  have h5: "takeWhile (\<lambda>c. c \<noteq> ''Documents'') priority_order = [''Archives'']
      \<and> in_category ''.png'' no_documents ''Archives'' = Inr False"
    by code_simp
  then have h6: "\<forall>c\<in>set (takeWhile (\<lambda>c. c \<noteq> ''Documents'') priority_order).
      in_category ''.png'' no_documents c = Inr False"
    by simp
  have m: "''Music'' \<in> set (map fst with_music)" by code_simp
  note t = classification_literal_names [of "''.mp3''" "PDict with_music" "''Others''" ?cfg
      "PBool False" downloads with_music music_world "stored_config True (PDict with_music)"
      "snd ?run" "''Documents''" no_documents "''.png''" with_music]
  from t h2 h3' have "\<forall>k\<in>set (map fst with_music). is_dir (snd ?run) (joinpath downloads k)"
    by blast
  with m have c2: "is_dir (snd ?run) (joinpath downloads ''Music'')" by blast
  from t h4 h6 have c3: "classify ''.png'' no_documents = Inl KeyError" by blast
  from t h1 have c4: "classify ''.mp3'' (PDict (filter (\<lambda>kv. fst kv \<noteq> ''Others'') with_music))
      = Inr ''Others''" by simp
  from h1 h2 h3 c2 h4 h5 c3 c4 show ?thesis by blast
qed

end
